theory Spec2Isabelle
  imports Main
begin

section \<open>Python values, exceptions and strings\<close>

text \<open>
  The development embeds \<^verbatim>\<open>src/src/update.py\<close>: the class \<^verbatim>\<open>Table\<close> with its
  methods \<^verbatim>\<open>__post_init__\<close>, \<^verbatim>\<open>_get_ndl_data\<close>, \<^verbatim>\<open>_apply_transforms\<close>,
  \<^verbatim>\<open>_put_to_aws\<close>, \<^verbatim>\<open>refresh\<close>, and \<^verbatim>\<open>Dataset.update_tables\<close>.
  Exceptions are values of the type \<open>error\<close>; a method that can raise returns
  \<open>error + 'a\<close> together with the world it leaves behind.
\<close>

datatype error =
    IndexError
  | KeyError string
  | AttributeError string
  | FileNotFoundError string
  | External string

text \<open>The text an exception shows when it is formatted into a log message (\<^verbatim>\<open>{e}\<close>).\<close>

fun error_str :: "error \<Rightarrow> string" where
  "error_str IndexError = ''list index out of range''"
| "error_str (KeyError k) = [CHR 0x27] @ k @ [CHR 0x27]"
| "error_str (AttributeError m) = m"
| "error_str (FileNotFoundError f) = ''[Errno 2] No such file or directory: '' @ [CHR 0x27] @ f @ [CHR 0x27]"
| "error_str (External m) = m"

text \<open>\<^verbatim>\<open>str.split(sep)\<close> for a one-character separator: always at least one segment.\<close>

fun split_on :: "char \<Rightarrow> string \<Rightarrow> string list" where
  "split_on c [] = [[]]"
| "split_on c (x # xs) =
     (if x = c then [] # split_on c xs
      else (case split_on c xs of
              [] \<Rightarrow> [[x]]
            | s # ss \<Rightarrow> (x # s) # ss))"

text \<open>\<^verbatim>\<open>xs[i]\<close> for a non-negative index: \<^verbatim>\<open>IndexError\<close> out of range.\<close>

fun index_list :: "'a list \<Rightarrow> nat \<Rightarrow> error + 'a" where
  "index_list [] i = Inl IndexError"
| "index_list (x # xs) 0 = Inr x"
| "index_list (x # xs) (Suc i) = index_list xs i"

text \<open>\<^verbatim>\<open>str.replace(a, b)\<close> for one-character arguments.\<close>

definition replace_char :: "char \<Rightarrow> char \<Rightarrow> string \<Rightarrow> string" where
  "replace_char a b s = map (\<lambda>c. if c = a then b else c) s"

text \<open>\<^verbatim>\<open>str.startswith\<close>, used for the object store's \<^verbatim>\<open>Prefix\<close> filter.\<close>

fun startswith :: "string \<Rightarrow> string \<Rightarrow> bool" where
  "startswith s [] = True"
| "startswith [] (p # ps) = False"
| "startswith (c # s) (p # ps) = (c = p \<and> startswith s ps)"

text \<open>Decimal rendering of a natural number, as \<^verbatim>\<open>str(n)\<close> and the f-string \<^verbatim>\<open>{n}\<close>.\<close>

definition digit_char :: "nat \<Rightarrow> char" where
  "digit_char d = ''0123456789'' ! d"

function show_nat :: "nat \<Rightarrow> string" where
  "show_nat n =
     (if n < 10 then [digit_char n] else show_nat (n div 10) @ [digit_char (n mod 10)])"
  by pat_completeness auto
termination
  by (relation "measure id") auto

declare show_nat.simps [simp del]

text \<open>Zero padding to a minimal width, as \<^verbatim>\<open>%Y\<close>, \<^verbatim>\<open>%m\<close> and \<^verbatim>\<open>%d\<close> of \<^verbatim>\<open>strftime\<close> do.\<close>

definition zero_pad :: "nat \<Rightarrow> string \<Rightarrow> string" where
  "zero_pad w s = replicate (w - length s) (CHR ''0'') @ s"

section \<open>Data frames\<close>

text \<open>
  A cell of a pandas column. \<open>Ts y m d\<close> is a \<^verbatim>\<open>Timestamp\<close> with the calendar
  attributes \<^verbatim>\<open>year\<close>, \<^verbatim>\<open>month\<close>, \<^verbatim>\<open>day\<close>; \<open>NaT\<close> is the missing timestamp,
  whose calendar attributes are \<open>NaN\<close>.
\<close>

datatype cell =
    IntV int
  | StrV string
  | Ts nat nat nat
  | NaT
  | NaN

type_synonym column = "cell list"

text \<open>A data frame: its columns in order, each under its name.\<close>

type_synonym dataframe = "(string \<times> column) list"

definition df_columns :: "dataframe \<Rightarrow> string list" where
  "df_columns df = map fst df"

text \<open>\<^verbatim>\<open>df[column]\<close>: \<^verbatim>\<open>KeyError\<close> when the column is absent.\<close>

definition df_get :: "dataframe \<Rightarrow> string \<Rightarrow> error + column" where
  "df_get df c = (case map_of df c of None \<Rightarrow> Inl (KeyError c) | Some col \<Rightarrow> Inr col)"

text \<open>\<^verbatim>\<open>df[column] = values\<close>: replaces the column where it stands, or appends it.\<close>

fun df_set :: "dataframe \<Rightarrow> string \<Rightarrow> column \<Rightarrow> dataframe" where
  "df_set [] c v = [(c, v)]"
| "df_set ((k, x) # df) c v = (if k = c then (k, v) # df else (k, x) # df_set df c v)"

text \<open>\<^verbatim>\<open>df.drop(column, axis=1, inplace=True)\<close>: \<^verbatim>\<open>KeyError\<close> when the column is absent.\<close>

definition df_drop :: "dataframe \<Rightarrow> string \<Rightarrow> error + dataframe" where
  "df_drop df c =
     (if c \<in> set (df_columns df) then Inr (filter (\<lambda>p. fst p \<noteq> c) df)
      else Inl (KeyError c))"

text \<open>\<^verbatim>\<open>len(df)\<close>: the number of rows.\<close>

fun df_len :: "dataframe \<Rightarrow> nat" where
  "df_len [] = 0"
| "df_len ((k, x) # df) = length x"

text \<open>Sequencing of steps that can raise: the first exception ends the sequence.\<close>

definition and_then :: "error + 'a \<Rightarrow> ('a \<Rightarrow> error + 'b) \<Rightarrow> error + 'b" where
  "and_then r f = (case r of Inl e \<Rightarrow> Inl e | Inr x \<Rightarrow> f x)"

text \<open>\<^verbatim>\<open>series.apply(f)\<close>: \<open>f\<close> on every cell in order; the first exception wins.\<close>

fun apply_cells :: "(cell \<Rightarrow> error + cell) \<Rightarrow> column \<Rightarrow> error + column" where
  "apply_cells f [] = Inr []"
| "apply_cells f (x # xs) =
     and_then (f x) (\<lambda>y. and_then (apply_cells f xs) (\<lambda>ys. Inr (y # ys)))"

text \<open>The lambdas \<^verbatim>\<open>x.year\<close>, \<^verbatim>\<open>x.month\<close>, \<^verbatim>\<open>x.day\<close> of lines 79 to 81.\<close>

fun cell_year :: "cell \<Rightarrow> error + cell" where
  "cell_year (Ts y m d) = Inr (IntV (int y))"
| "cell_year NaT = Inr NaN"
| "cell_year _ = Inl (AttributeError ''year'')"

fun cell_month :: "cell \<Rightarrow> error + cell" where
  "cell_month (Ts y m d) = Inr (IntV (int m))"
| "cell_month NaT = Inr NaN"
| "cell_month _ = Inl (AttributeError ''month'')"

fun cell_day :: "cell \<Rightarrow> error + cell" where
  "cell_day (Ts y m d) = Inr (IntV (int d))"
| "cell_day NaT = Inr NaN"
| "cell_day _ = Inl (AttributeError ''day'')"

text \<open>
  \<^verbatim>\<open>.dt.strftime('%Y-%m-%d')\<close> on one cell. The \<^verbatim>\<open>.dt\<close> accessor exists only on
  datetime-like columns.
\<close>

fun strftime_cell :: "cell \<Rightarrow> error + cell" where
  "strftime_cell (Ts y m d) =
     Inr (StrV (zero_pad 4 (show_nat y) @ ''-'' @ zero_pad 2 (show_nat m) @ ''-''
                @ zero_pad 2 (show_nat d)))"
| "strftime_cell NaT = Inr NaN"
| "strftime_cell _ = Inl (AttributeError ''Can only use .dt accessor with datetimelike values'')"

section \<open>The world outside the process and the collaborators\<close>

datatype level = Debug | Info | Error

text \<open>The keyword arguments of \<^verbatim>\<open>wrangler.s3.to_parquet\<close>; the last four are optional.\<close>

record parquet_args =
  pq_df :: dataframe
  pq_path :: string
  pq_index :: bool
  pq_compression :: string
  pq_dataset :: "bool option"
  pq_mode :: "string option"
  pq_partition_cols :: "string list option"
  pq_concurrent_partitioning :: "bool option"

text \<open>
  A request sent to the data API: \<^verbatim>\<open>ndl.get_table(name, paginate=.., **{field: date})\<close>
  or \<^verbatim>\<open>ndl.export_table(name, filename=..)\<close>.
\<close>

datatype ndl_call =
    Get_table string bool string string
  | Export_table string string

text \<open>
  What the run can observe and change: the local files (name to content), the objects of
  the store (bucket and key), the requests sent to the data API so far, the lines handed
  to the logger, and the heap of Python list objects that hold partition columns (the
  caller's lists and the table's share them).
\<close>

record world =
  local_files :: "string \<rightharpoonup> string"
  s3_objects :: "(string \<times> string) list"
  ndl_calls :: "ndl_call list"
  log_lines :: "(level \<times> string) list"
  list_heap :: "nat \<Rightarrow> string list"
  next_ref :: nat

text \<open>
  The module constants read from the environment and the external libraries
  (boto3, nasdaqdatalink, pandas, awswrangler), which are not part of the repository.
\<close>

record env =
  aws_bucket :: string
  aws_bucket_dir :: string
  s3_list_fault :: "string \<Rightarrow> string \<Rightarrow> error option"
  astype :: "string \<Rightarrow> column \<Rightarrow> error + column"
  get_table :: "string \<Rightarrow> bool \<Rightarrow> string \<times> string \<Rightarrow> error + dataframe"
  export_table :: "string \<Rightarrow> string \<Rightarrow> (string \<rightharpoonup> string) \<Rightarrow> error option \<times> (string \<rightharpoonup> string)"
  read_csv :: "string \<Rightarrow> (string \<rightharpoonup> string) \<Rightarrow> error + dataframe"
  to_parquet :: "parquet_args \<Rightarrow> (string \<times> string) list
                   \<Rightarrow> error option \<times> (string \<times> string) list"

definition AWS_COMPRESSION_TYPE :: string where
  "AWS_COMPRESSION_TYPE = ''gzip''"

definition logger :: "level \<Rightarrow> string \<Rightarrow> world \<Rightarrow> world" where
  "logger lv msg w = w\<lparr>log_lines := log_lines w @ [(lv, msg)]\<rparr>"

text \<open>
  \<^verbatim>\<open>s3_client.list_objects(Bucket, Prefix, MaxKeys)\<close>: the call can fail; otherwise the
  response has the key \<^verbatim>\<open>Contents\<close> exactly when some object of the bucket has a key that
  starts with the prefix. The result is that \<^verbatim>\<open>Contents\<close> entry.
\<close>

definition list_objects :: "env \<Rightarrow> string \<Rightarrow> string \<Rightarrow> nat \<Rightarrow> world \<Rightarrow> error + string list option" where
  "list_objects ev bucket pre max_keys w =
     (case s3_list_fault ev bucket pre of
        Some e \<Rightarrow> Inl e
      | None \<Rightarrow>
          (let found = take max_keys
                 (map snd (filter (\<lambda>ob. fst ob = bucket \<and> startswith (snd ob) pre) (s3_objects w)))
           in Inr (if found = [] then None else Some found)))"

section \<open>Table\<close>

text \<open>
  The dataclass fields and the three private attributes. \<open>partition_cols\<close> is a reference
  to a list object of the heap; \<open>data\<close> is \<^verbatim>\<open>_data\<close>, absent until the fetch assigned it.
\<close>

record table =
  name :: string
  update_field :: string
  partition_cols :: nat
  schema :: "(string \<times> string) list"
  s3_key :: string
  refresh_mode :: string
  data :: "dataframe option"

text \<open>Lines 30 and 31: the destination key.\<close>

definition derive_s3_key :: "env \<Rightarrow> string \<Rightarrow> string \<Rightarrow> error + string" where
  "derive_s3_key ev nm uf =
     (if uf = [] then
        and_then (index_list (split_on (CHR ''/'') nm) 1)
          (\<lambda>seg. Inr (aws_bucket_dir ev @ ''/'' @ nm @ ''/'' @ seg @ ''.parquet''))
      else Inr (aws_bucket_dir ev @ ''/'' @ nm @ ''''))"

text \<open>\<^verbatim>\<open>Table.__post_init__\<close>, run by the constructor after the four fields are set.\<close>

definition post_init ::
  "env \<Rightarrow> string \<Rightarrow> string \<Rightarrow> nat \<Rightarrow> (string \<times> string) list \<Rightarrow> world \<Rightarrow> (error + table) \<times> world" where
  "post_init ev nm uf pc sch w =
     (case derive_s3_key ev nm uf of
        Inl e \<Rightarrow> (Inl e, w)
      | Inr key \<Rightarrow>
          (if uf \<noteq> [] then
             (let w1 = logger Debug (''Found update field `'' @ uf @ ''` for '' @ nm
                                      @ ''; checking for S3 object...'') w
              in case list_objects ev (aws_bucket ev) key 1 w1 of
                   Inl e \<Rightarrow> (Inl e, w1)
                 | Inr contents \<Rightarrow>
                     (if contents \<noteq> None then
                        (Inr \<lparr>name = nm, update_field = uf, partition_cols = pc, schema = sch,
                              s3_key = key, refresh_mode = ''overwrite_partitions'',
                              data = None\<rparr>,
                         logger Debug (''S3 resource check passed for '' @ nm
                                       @ ''; using `append` mode.'') w1)
                      else
                        (Inr \<lparr>name = nm, update_field = uf, partition_cols = pc, schema = sch,
                              s3_key = key, refresh_mode = ''overwrite'', data = None\<rparr>,
                         logger Debug (''S3 resource check failed for '' @ nm
                                       @ ''; re-creating table.'') w1)))
           else
             (Inr \<lparr>name = nm, update_field = uf, partition_cols = pc, schema = sch,
                   s3_key = key, refresh_mode = ''overwrite'', data = None\<rparr>,
              logger Debug (''No update field provided for '' @ nm
                            @ ''; using `overwrite` mode.'') w)))"

text \<open>\<^verbatim>\<open>self._data\<close>: \<^verbatim>\<open>AttributeError\<close> while nothing was fetched.\<close>

definition get_data :: "table \<Rightarrow> error + dataframe" where
  "get_data t =
     (case data t of
        None \<Rightarrow> Inl (AttributeError ''_data'')
      | Some df \<Rightarrow> Inr df)"

text \<open>Line 61: the name of the local export file.\<close>

definition export_file_name :: "table \<Rightarrow> string" where
  "export_file_name t = replace_char (CHR ''/'') (CHR ''.'') (name t) @ ''.zip''"

text \<open>
  Lines 63 to 68, the \<^verbatim>\<open>try\<close> and \<^verbatim>\<open>except\<close> of the export: the exception is logged
  and raised again.
\<close>

definition export_and_read :: "env \<Rightarrow> table \<Rightarrow> world \<Rightarrow> (error + dataframe) \<times> world" where
  "export_and_read ev t w =
     (let w0 = w\<lparr>ndl_calls := ndl_calls w @ [Export_table (name t) (export_file_name t)]\<rparr>
      in case export_table ev (name t) (export_file_name t) (local_files w0) of
           (Some e, fs) \<Rightarrow>
             (Inl e, logger Error (''Failed to get new data for '' @ name t @ '': '' @ error_str e)
                       (w0\<lparr>local_files := fs\<rparr>))
         | (None, fs) \<Rightarrow>
             (case read_csv ev (export_file_name t) fs of
                Inl e \<Rightarrow>
                  (Inl e, logger Error (''Failed to get new data for '' @ name t @ '': ''
                                        @ error_str e)
                            (w0\<lparr>local_files := fs\<rparr>))
              | Inr df \<Rightarrow> (Inr df, w0\<lparr>local_files := fs\<rparr>)))"

text \<open>Lines 69 to 71, the \<^verbatim>\<open>finally\<close>: \<^verbatim>\<open>os.path.exists\<close> and \<^verbatim>\<open>os.remove\<close>.\<close>

definition remove_if_exists :: "string \<Rightarrow> world \<Rightarrow> world" where
  "remove_if_exists f w =
     (if local_files w f \<noteq> None then w\<lparr>local_files := (local_files w)(f := None)\<rparr> else w)"

text \<open>\<^verbatim>\<open>Table._get_ndl_data\<close>.\<close>

definition get_ndl_data :: "env \<Rightarrow> table \<Rightarrow> string \<Rightarrow> world \<Rightarrow> (error + table) \<times> world" where
  "get_ndl_data ev t date w =
     (if refresh_mode t \<in> set [''append'', ''overwrite_partitions''] then
        (let w0 = logger Info (''Downloading new rows for: '' @ name t @ '' ...'') w;
             w1 = w0\<lparr>ndl_calls := ndl_calls w0 @ [Get_table (name t) True (update_field t) date]\<rparr>
         in case get_table ev (name t) True (update_field t, date) of
              Inl e \<Rightarrow>
                (Inl e, logger Error (''Failed to get new rows for '' @ name t @ '': '' @ error_str e) w1)
            | Inr df \<Rightarrow>
                (Inr (t\<lparr>data := Some df\<rparr>),
                 logger Info (''Fetched '' @ show_nat (df_len df) @ '' rows: '' @ name t @ ''.'') w1))
      else
        (let w1 = logger Info (''Downloading table extract: '' @ name t @ '' ...'') w;
             (r, w2) = export_and_read ev t w1;
             w3 = remove_if_exists (export_file_name t) w2
         in case r of
              Inl e \<Rightarrow> (Inl e, w3)
            | Inr df \<Rightarrow>
                (Inr (t\<lparr>data := Some df\<rparr>),
                 logger Info (''Fetched '' @ show_nat (df_len df) @ '' rows: '' @ name t @ ''.'') w3)))"

text \<open>Lines 78 to 82: the cast of the date column, the three new columns, the drop.\<close>

definition decompose_date :: "env \<Rightarrow> string \<Rightarrow> string \<Rightarrow> dataframe \<Rightarrow> error + dataframe" where
  "decompose_date ev col dtype df0 =
     and_then (df_get df0 col) (\<lambda>c0.
     and_then (astype ev dtype c0) (\<lambda>c1.
     (let df1 = df_set df0 col c1 in
     and_then (df_get df1 col) (\<lambda>c2.
     and_then (apply_cells cell_year c2) (\<lambda>ys.
     (let df2 = df_set df1 ''yyyy'' ys in
     and_then (df_get df2 col) (\<lambda>c3.
     and_then (apply_cells cell_month c3) (\<lambda>ms.
     (let df3 = df_set df2 ''mm'' ms in
     and_then (df_get df3 col) (\<lambda>c4.
     and_then (apply_cells cell_day c4) (\<lambda>ds.
     (let df4 = df_set df3 ''dd'' ds in
     df_drop df4 col))))))))))))"

text \<open>Line 86: cast to datetime, then format.\<close>

definition format_date :: "env \<Rightarrow> string \<Rightarrow> string \<Rightarrow> dataframe \<Rightarrow> error + dataframe" where
  "format_date ev col dtype df0 =
     and_then (df_get df0 col) (\<lambda>c0.
     and_then (astype ev dtype c0) (\<lambda>c1.
     and_then (apply_cells strftime_cell c1) (\<lambda>c2.
     Inr (df_set df0 col c2))))"

text \<open>Line 89: the plain cast.\<close>

definition cast_column :: "env \<Rightarrow> string \<Rightarrow> string \<Rightarrow> dataframe \<Rightarrow> error + dataframe" where
  "cast_column ev col dtype df0 =
     and_then (df_get df0 col) (\<lambda>c0.
     and_then (astype ev dtype c0) (\<lambda>c1.
     Inr (df_set df0 col c1)))"

text \<open>
  Lines 83 and 84: \<^verbatim>\<open>remove\<close> changes the list object the table shares with its caller
  (the column is in the list, so it does not raise); the assignment then binds a new list
  object.
\<close>

definition rewrite_partition_cols :: "string \<Rightarrow> table \<Rightarrow> world \<Rightarrow> table \<times> world" where
  "rewrite_partition_cols col t w =
     (let r = partition_cols t;
          w1 = w\<lparr>list_heap := (list_heap w)(r := remove1 col (list_heap w r))\<rparr>;
          r' = next_ref w1;
          w2 = w1\<lparr>list_heap := (list_heap w1)(r' := [''yyyy'', ''mm'', ''dd'']),
                  next_ref := Suc r'\<rparr>
      in (t\<lparr>partition_cols := r'\<rparr>, w2))"

text \<open>Lines 76 to 89: the body of the loop of \<^verbatim>\<open>_apply_transforms\<close> for one schema item.\<close>

definition transform_column :: "env \<Rightarrow> string \<times> string \<Rightarrow> table \<Rightarrow> world \<Rightarrow> (error + table) \<times> world" where
  "transform_column ev item t w =
     (let col = fst item; dtype = snd item in
      if list_heap w (partition_cols t) \<noteq> [] then
        (if col \<in> set (list_heap w (partition_cols t)) \<and> dtype = ''datetime64[ns]'' then
           (case and_then (get_data t) (decompose_date ev col dtype) of
              Inl e \<Rightarrow> (Inl e, w)
            | Inr df \<Rightarrow>
                (let (t', w') = rewrite_partition_cols col (t\<lparr>data := Some df\<rparr>) w
                 in (Inr t', w')))
         else (Inr t, w))
      else if dtype = ''datetime64[ns]'' then
        (case and_then (get_data t) (format_date ev col dtype) of
           Inl e \<Rightarrow> (Inl e, w)
         | Inr df \<Rightarrow> (Inr (t\<lparr>data := Some df\<rparr>), w))
      else
        (let w1 = logger Debug (''Cast: '' @ col @ '' to '' @ dtype) w
         in case and_then (get_data t) (cast_column ev col dtype) of
              Inl e \<Rightarrow> (Inl e, w1)
            | Inr df \<Rightarrow> (Inr (t\<lparr>data := Some df\<rparr>), w1)))"

text \<open>The loop over \<^verbatim>\<open>self.schema.items()\<close>, in the order of the dict.\<close>

fun transform_items ::
  "env \<Rightarrow> (string \<times> string) list \<Rightarrow> table \<Rightarrow> world \<Rightarrow> (error + table) \<times> world" where
  "transform_items ev [] t w = (Inr t, w)"
| "transform_items ev (item # items) t w =
     (case transform_column ev item t w of
        (Inl e, w') \<Rightarrow> (Inl e, w')
      | (Inr t', w') \<Rightarrow> transform_items ev items t' w')"

text \<open>\<^verbatim>\<open>Table._apply_transforms\<close>.\<close>

definition apply_transforms :: "env \<Rightarrow> table \<Rightarrow> world \<Rightarrow> (error + table) \<times> world" where
  "apply_transforms ev t w = transform_items ev (schema t) t w"

text \<open>Lines 92 to 105: the keyword arguments of the upload.\<close>

definition put_kwargs :: "env \<Rightarrow> table \<Rightarrow> dataframe \<Rightarrow> world \<Rightarrow> parquet_args" where
  "put_kwargs ev t df w =
     (let kwargs = \<lparr>pq_df = df,
                    pq_path = ''s3://'' @ aws_bucket ev @ ''/'' @ s3_key t,
                    pq_index = False,
                    pq_compression = AWS_COMPRESSION_TYPE,
                    pq_dataset = None, pq_mode = None, pq_partition_cols = None,
                    pq_concurrent_partitioning = None\<rparr>
      in if update_field t \<noteq> [] then
           kwargs\<lparr>pq_dataset := Some True,
                  pq_mode := Some (refresh_mode t),
                  pq_partition_cols := Some (list_heap w (partition_cols t)),
                  pq_concurrent_partitioning := Some True\<rparr>
         else kwargs)"

text \<open>\<^verbatim>\<open>Table._put_to_aws\<close>.\<close>

definition put_to_aws :: "env \<Rightarrow> table \<Rightarrow> world \<Rightarrow> (error + unit) \<times> world" where
  "put_to_aws ev t w =
     (case get_data t of
        Inl e \<Rightarrow> (Inl e, w)
      | Inr df \<Rightarrow>
          (let w1 = logger Info (''Uploading '' @ name t @ ''...'') w
           in case to_parquet ev (put_kwargs ev t df w1) (s3_objects w1) of
                (None, objs) \<Rightarrow>
                  (Inr (), logger Info (''Finished updating '' @ name t @ ''.'')
                             (w1\<lparr>s3_objects := objs\<rparr>))
              | (Some e, objs) \<Rightarrow>
                  (Inl e, logger Error (''Upload failed for '' @ name t @ ''; '' @ error_str e)
                            (w1\<lparr>s3_objects := objs\<rparr>))))"

text \<open>
  \<^verbatim>\<open>Table.refresh\<close>: fetch, transform, write. The table object is returned with the
  result so that its fields can be read after the call.
\<close>

definition refresh :: "env \<Rightarrow> table \<Rightarrow> string \<Rightarrow> world \<Rightarrow> (error + table) \<times> world" where
  "refresh ev t date w =
     (case get_ndl_data ev t date w of
        (Inl e, w1) \<Rightarrow> (Inl e, w1)
      | (Inr t1, w1) \<Rightarrow>
          (case apply_transforms ev t1 w1 of
             (Inl e, w2) \<Rightarrow> (Inl e, w2)
           | (Inr t2, w2) \<Rightarrow>
               (case put_to_aws ev t2 w2 of
                  (Inl e, w3) \<Rightarrow> (Inl e, w3)
                | (Inr u, w3) \<Rightarrow> (Inr t2, w3))))"

section \<open>Dataset\<close>

text \<open>
  The value of one table name in the dataset's dict: the metadata loaded from YAML, where
  any of the three keys can be missing. \<open>md_partition_cols\<close> is the reference to the list
  object that the YAML loader created.
\<close>

record metadata =
  md_update_field :: "string option"
  md_partition_cols :: "nat option"
  md_schema :: "(string \<times> string) list option"

text \<open>\<^verbatim>\<open>metadata[key]\<close>.\<close>

definition md_item :: "string \<Rightarrow> 'a option \<Rightarrow> error + 'a" where
  "md_item key v = (case v of None \<Rightarrow> Inl (KeyError key) | Some x \<Rightarrow> Inr x)"

text \<open>Lines 170 to 174: the body of the \<^verbatim>\<open>try\<close> for one table.\<close>

definition construct_and_refresh ::
  "env \<Rightarrow> string \<Rightarrow> string \<Rightarrow> string \<times> metadata \<Rightarrow> world \<Rightarrow> (error + table) \<times> world" where
  "construct_and_refresh ev dataset_name as_of_date entry w =
     (let table_name = fst entry; md = snd entry in
      case and_then (md_item ''update_field'' (md_update_field md)) (\<lambda>uf.
           and_then (md_item ''partition_cols'' (md_partition_cols md)) (\<lambda>pc.
           and_then (md_item ''schema'' (md_schema md)) (\<lambda>sch. Inr (uf, pc, sch)))) of
        Inl e \<Rightarrow> (Inl e, w)
      | Inr (uf, pc, sch) \<Rightarrow>
          (case post_init ev (dataset_name @ ''/'' @ table_name) uf pc sch w of
             (Inl e, w1) \<Rightarrow> (Inl e, w1)
           | (Inr t, w1) \<Rightarrow> refresh ev t as_of_date w1))"

text \<open>Lines 169 to 177: one turn of the loop, with its \<^verbatim>\<open>except\<close>.\<close>

definition update_one :: "env \<Rightarrow> string \<Rightarrow> string \<Rightarrow> string \<times> metadata \<Rightarrow> world \<Rightarrow> world" where
  "update_one ev dataset_name as_of_date entry w =
     (case construct_and_refresh ev dataset_name as_of_date entry w of
        (Inl e, w') \<Rightarrow>
          logger Error (''Failed to refresh '' @ dataset_name @ ''/'' @ fst entry @ '': ''
                        @ error_str e) w'
      | (Inr t, w') \<Rightarrow> w')"

text \<open>
  \<^verbatim>\<open>Dataset.update_tables\<close>: the dict's items in their order. The method returns
  \<^verbatim>\<open>None\<close>; the world it leaves is all there is to observe.
\<close>

fun update_tables ::
  "env \<Rightarrow> string \<Rightarrow> (string \<times> metadata) list \<Rightarrow> string \<Rightarrow> world \<Rightarrow> world" where
  "update_tables ev dataset_name [] as_of_date w = w"
| "update_tables ev dataset_name (entry # entries) as_of_date w =
     update_tables ev dataset_name entries as_of_date
       (update_one ev dataset_name as_of_date entry w)"

section \<open>Sample collaborators\<close>

text \<open>
  Small stand-ins for the external libraries, used to run the definitions above on
  concrete inputs. Nothing is proved about the libraries themselves: every general theorem
  below holds for all collaborators.
\<close>

definition digit_val :: "char \<Rightarrow> nat option" where
  "digit_val c =
     map_of [(CHR ''0'', 0), (CHR ''1'', 1), (CHR ''2'', 2), (CHR ''3'', 3), (CHR ''4'', 4),
             (CHR ''5'', 5), (CHR ''6'', 6), (CHR ''7'', 7), (CHR ''8'', 8), (CHR ''9'', 9)] c"

fun digits_val :: "string \<Rightarrow> nat \<Rightarrow> nat option" where
  "digits_val [] acc = Some acc"
| "digits_val (c # cs) acc =
     (case digit_val c of None \<Rightarrow> None | Some d \<Rightarrow> digits_val cs (10 * acc + d))"

definition parse_nat :: "string \<Rightarrow> nat option" where
  "parse_nat s = (if s = [] then None else digits_val s 0)"

definition parse_iso_date :: "string \<Rightarrow> cell option" where
  "parse_iso_date s =
     (case split_on (CHR ''-'') s of
        [y, m, d] \<Rightarrow>
          (case (parse_nat y, parse_nat m, parse_nat d) of
             (Some y', Some m', Some d') \<Rightarrow> Some (Ts y' m' d')
           | _ \<Rightarrow> None)
      | _ \<Rightarrow> None)"

fun sample_to_datetime :: "cell \<Rightarrow> error + cell" where
  "sample_to_datetime (Ts y m d) = Inr (Ts y m d)"
| "sample_to_datetime NaT = Inr NaT"
| "sample_to_datetime NaN = Inr NaT"
| "sample_to_datetime (StrV s) =
     (case parse_iso_date s of
        Some c \<Rightarrow> Inr c
      | None \<Rightarrow> Inl (External ''Unknown datetime string format''))"
| "sample_to_datetime (IntV n) =
     (if 0 \<le> n \<and> n < 86400000000000 then Inr (Ts 1970 1 1)
      else Inl (External ''the sample reads integers as nanoseconds of the first day only''))"

fun sample_to_int64 :: "cell \<Rightarrow> error + cell" where
  "sample_to_int64 (IntV n) = Inr (IntV n)"
| "sample_to_int64 (StrV s) =
     (case parse_nat s of
        Some n \<Rightarrow> Inr (IntV (int n))
      | None \<Rightarrow> Inl (External ''invalid literal for int()''))"
| "sample_to_int64 _ = Inl (External ''cannot convert to int64'')"

definition sample_astype :: "string \<Rightarrow> column \<Rightarrow> error + column" where
  "sample_astype dtype c =
     (if dtype = ''datetime64[ns]'' then apply_cells sample_to_datetime c
      else if dtype = ''int64'' then apply_cells sample_to_int64 c
      else if dtype = ''object'' then Inr c
      else Inl (External ''data type not understood''))"

text \<open>The rows of the as-of date, and the whole table as the export holds it.\<close>

definition sample_new_rows :: dataframe where
  "sample_new_rows = [(''date'', [StrV ''2024-03-01'']), (''close'', [StrV ''17''])]"

definition sample_export_rows :: dataframe where
  "sample_export_rows =
     [(''date'', [StrV ''2024-02-29'', StrV ''2024-03-01'']), (''close'', [StrV ''16'', StrV ''17''])]"

definition sample_env :: env where
  "sample_env =
     \<lparr>aws_bucket = ''bucket'',
      aws_bucket_dir = ''nasdaq'',
      s3_list_fault = (\<lambda>b p. None),
      astype = sample_astype,
      get_table = (\<lambda>nm paginate flt. Inr sample_new_rows),
      export_table = (\<lambda>nm f fs. (None, fs(f \<mapsto> ''zip''))),
      read_csv = (\<lambda>f fs. case fs f of None \<Rightarrow> Inl (FileNotFoundError f)
                                      | Some z \<Rightarrow> Inr sample_export_rows),
      to_parquet = (\<lambda>args objs. (None, objs @ [(''bucket'', drop 12 (pq_path args))]))\<rparr>"

text \<open>A fresh process: no local file, an empty bucket, one list object per table to come.\<close>

definition sample_world :: world where
  "sample_world =
     \<lparr>local_files = Map.empty,
      s3_objects = [],
      ndl_calls = [],
      log_lines = [],
      list_heap = (\<lambda>r. []),
      next_ref = 8\<rparr>"

section \<open>Rows that are already typed\<close>



section \<open>General facts about the methods\<close>


lemma transform_column_frame:
  "transform_column ev item t w = (Inr t', w') \<Longrightarrow>
     name t' = name t \<and> update_field t' = update_field t \<and> schema t' = schema t
     \<and> s3_key t' = s3_key t \<and> refresh_mode t' = refresh_mode t"
  by (auto simp: transform_column_def rewrite_partition_cols_def Let_def
           split: if_splits sum.splits prod.splits)

lemma transform_items_frame:
  "transform_items ev items t w = (Inr t', w') \<Longrightarrow>
     name t' = name t \<and> update_field t' = update_field t \<and> schema t' = schema t
     \<and> s3_key t' = s3_key t \<and> refresh_mode t' = refresh_mode t"
proof (induction items arbitrary: t w)
  case Nil
  then show ?case by simp
next
  case (Cons item items)
  from Cons.prems obtain t1 w1 where
    step: "transform_column ev item t w = (Inr t1, w1)" and
    rest: "transform_items ev items t1 w1 = (Inr t', w')"
    by (auto split: prod.splits sum.splits)
  from transform_column_frame[OF step] Cons.IH[OF rest] show ?case by simp
qed

lemma get_ndl_data_frame:
  "get_ndl_data ev t date w = (Inr t', w') \<Longrightarrow> t' = t\<lparr>data := data t'\<rparr>"
  by (auto simp: get_ndl_data_def Let_def split: if_splits sum.splits prod.splits)

lemma refresh_stages:
  "refresh ev t date w = (Inr t', w') \<Longrightarrow>
     \<exists>t1 w1 w2. get_ndl_data ev t date w = (Inr t1, w1)
       \<and> apply_transforms ev t1 w1 = (Inr t', w2)
       \<and> put_to_aws ev t' w2 = (Inr (), w')"
  by (auto simp: refresh_def split: prod.splits sum.splits)

lemma refresh_frame:
  "refresh ev t date w = (Inr t', w') \<Longrightarrow>
     name t' = name t \<and> update_field t' = update_field t \<and> schema t' = schema t
     \<and> s3_key t' = s3_key t \<and> refresh_mode t' = refresh_mode t"
proof -
  assume r: "refresh ev t date w = (Inr t', w')"
  from refresh_stages[OF r] obtain t1 w1 w2 where
    g: "get_ndl_data ev t date w = (Inr t1, w1)" and
    a: "apply_transforms ev t1 w1 = (Inr t', w2)"
    by blast
  from get_ndl_data_frame[OF g] have "t1 = t\<lparr>data := data t1\<rparr>" .
  then have e: "name t1 = name t \<and> update_field t1 = update_field t \<and> schema t1 = schema t
     \<and> s3_key t1 = s3_key t \<and> refresh_mode t1 = refresh_mode t"
    by (metis table.select_convs table.surjective table.update_convs)
  from a transform_items_frame[of ev "schema t1" t1 w1 t' w2] e show ?thesis
    by (simp add: apply_transforms_def)
qed

lemma post_init_mode:
  "post_init ev nm uf pc sch w = (Inr t, w') \<Longrightarrow>
     refresh_mode t =
       (if uf \<noteq> [] \<and> (\<exists>ob \<in> set (s3_objects w).
                          fst ob = aws_bucket ev \<and> startswith (snd ob) (s3_key t))
        then ''overwrite_partitions'' else ''overwrite'')"
  by (auto simp: post_init_def list_objects_def logger_def Let_def filter_empty_conv
           split: if_splits sum.splits option.splits)

section \<open>Refresh mode\<close>



lemma split_on_not_Nil: "split_on c s \<noteq> []"
  by (induction s) (auto split: list.splits)

lemma split_on_no_separator: "c \<notin> set s \<Longrightarrow> split_on c s = [s]"
  by (induction s) auto

lemma split_on_separator: "c \<in> set s \<Longrightarrow> \<exists>a b rest. split_on c s = a # b # rest"
proof (induction s)
  case Nil
  then show ?case by simp
next
  case (Cons x xs)
  show ?case
  proof (cases "x = c")
    case True
    obtain b rest where "split_on c xs = b # rest"
      using split_on_not_Nil[of c xs] by (cases "split_on c xs") auto
    with True show ?thesis by simp
  next
    case False
    with Cons.prems have "c \<in> set xs" by simp
    from Cons.IH[OF this] obtain a b rest where "split_on c xs = a # b # rest" by blast
    with False show ?thesis by simp
  qed
qed

lemma derive_s3_key_full:
  "CHR ''/'' \<in> set nm \<Longrightarrow>
     derive_s3_key ev nm [] =
       Inr (aws_bucket_dir ev @ ''/'' @ nm @ ''/'' @ split_on (CHR ''/'') nm ! 1 @ ''.parquet'')"
proof -
  assume "CHR ''/'' \<in> set nm"
  from split_on_separator[OF this] obtain a b rest where
    "split_on (CHR ''/'') nm = a # b # rest" by blast
  then show ?thesis
    by (simp add: derive_s3_key_def and_then_def)
qed

section \<open>Destination key\<close>

text \<open>
  C10. With an empty \<open>update_field\<close> the constructor indexes the second segment of the name
  split at \<^verbatim>\<open>/\<close>. For a name without \<^verbatim>\<open>/\<close> the construction raises \<^verbatim>\<open>IndexError\<close> and
  leaves the world as it was: nothing was requested, written or logged. For a name with
  \<^verbatim>\<open>/\<close> the construction succeeds, the key is the bucket directory, the name, the second
  segment and \<^verbatim>\<open>.parquet\<close>, and a refresh leaves the key as the constructor computed it.
\<close>

theorem full_extract_key_needs_separator:
  "(CHR ''/'' \<notin> set nm \<longrightarrow> post_init ev nm [] pc sch w = (Inl IndexError, w))
   \<and> (CHR ''/'' \<in> set nm \<longrightarrow>
        (\<exists>t w'. post_init ev nm [] pc sch w = (Inr t, w')
           \<and> s3_key t = aws_bucket_dir ev @ ''/'' @ nm @ ''/'' @ split_on (CHR ''/'') nm ! 1
                          @ ''.parquet''
           \<and> (\<forall>date t2 w2. refresh ev t date w' = (Inr t2, w2) \<longrightarrow> s3_key t2 = s3_key t)))"
proof (intro conjI impI)
  assume "CHR ''/'' \<notin> set nm"
  then show "post_init ev nm [] pc sch w = (Inl IndexError, w)"
    by (simp add: post_init_def derive_s3_key_def split_on_no_separator and_then_def)
next
  assume "CHR ''/'' \<in> set nm"
  from derive_s3_key_full[OF this, of ev]
  have "\<exists>t w'. post_init ev nm [] pc sch w = (Inr t, w')
           \<and> s3_key t = aws_bucket_dir ev @ ''/'' @ nm @ ''/'' @ split_on (CHR ''/'') nm ! 1
                          @ ''.parquet''"
    by (simp add: post_init_def)
  then show "\<exists>t w'. post_init ev nm [] pc sch w = (Inr t, w')
           \<and> s3_key t = aws_bucket_dir ev @ ''/'' @ nm @ ''/'' @ split_on (CHR ''/'') nm ! 1
                          @ ''.parquet''
           \<and> (\<forall>date t2 w2. refresh ev t date w' = (Inr t2, w2) \<longrightarrow> s3_key t2 = s3_key t)"
    using refresh_frame by blast
qed

theorem full_extract_key_needs_separator_witness:
  "post_init sample_env ''PRICES'' [] 0 [] sample_world = (Inl IndexError, sample_world)
   \<and> (\<exists>t w'. post_init sample_env ''WIKI/PRICES'' [] 0 [] sample_world = (Inr t, w')
           \<and> s3_key t = ''nasdaq/WIKI/PRICES/PRICES.parquet''
           \<and> (\<forall>date t2 w2. refresh sample_env t date w' = (Inr t2, w2) \<longrightarrow> s3_key t2 = s3_key t))"
proof -
  have a: "CHR ''/'' \<notin> set ''PRICES''" by simp
  have b: "CHR ''/'' \<in> set ''WIKI/PRICES''" by simp
  have k: "aws_bucket_dir sample_env @ ''/'' @ ''WIKI/PRICES'' @ ''/''
             @ split_on (CHR ''/'') ''WIKI/PRICES'' ! 1 @ ''.parquet''
           = ''nasdaq/WIKI/PRICES/PRICES.parquet''"
    by (simp add: sample_env_def)
  from full_extract_key_needs_separator[of "''PRICES''" sample_env 0 "[]" sample_world] a
  have 1: "post_init sample_env ''PRICES'' [] 0 [] sample_world = (Inl IndexError, sample_world)"
    by blast
  from full_extract_key_needs_separator[of "''WIKI/PRICES''" sample_env 0 "[]" sample_world] b
  have 2: "\<exists>t w'. post_init sample_env ''WIKI/PRICES'' [] 0 [] sample_world = (Inr t, w')
           \<and> s3_key t = aws_bucket_dir sample_env @ ''/'' @ ''WIKI/PRICES'' @ ''/''
             @ split_on (CHR ''/'') ''WIKI/PRICES'' ! 1 @ ''.parquet''
           \<and> (\<forall>date t2 w2. refresh sample_env t date w' = (Inr t2, w2) \<longrightarrow> s3_key t2 = s3_key t)"
    by blast
  from 1 2 show ?thesis unfolding k by blast
qed

lemma remove_if_exists_gone: "local_files (remove_if_exists f w) f = None"
  by (simp add: remove_if_exists_def)

lemma logger_local_files: "local_files (logger lv msg w) = local_files w"
  by (simp add: logger_def)

lemma get_ndl_data_export_file_gone:
  "refresh_mode t \<notin> set [''append'', ''overwrite_partitions''] \<Longrightarrow>
     local_files (snd (get_ndl_data ev t date w)) (export_file_name t) = None"
  by (simp add: get_ndl_data_def Let_def remove_if_exists_gone logger_local_files
           split: prod.splits sum.splits)

lemma rewrite_partition_cols_local_files:
  "local_files (snd (rewrite_partition_cols col t w)) = local_files w"
  by (simp add: rewrite_partition_cols_def Let_def)

lemma transform_column_local_files:
  "local_files (snd (transform_column ev item t w)) = local_files w"
  by (simp add: transform_column_def rewrite_partition_cols_def Let_def logger_def
           split: sum.splits prod.splits)

lemma transform_items_local_files:
  "local_files (snd (transform_items ev items t w)) = local_files w"
proof (induction items arbitrary: t w)
  case Nil
  then show ?case by simp
next
  case (Cons item items)
  show ?case
  proof (cases "transform_column ev item t w")
    case (Pair r w1)
    with transform_column_local_files[of ev item t w] have e: "local_files w1 = local_files w"
      by simp
    show ?thesis
    proof (cases r)
      case (Inl err)
      with Pair e show ?thesis by simp
    next
      case (Inr t1)
      with Pair e Cons.IH[of t1 w1] show ?thesis by simp
    qed
  qed
qed

lemma put_to_aws_local_files:
  "local_files (snd (put_to_aws ev t w)) = local_files w"
  by (simp add: put_to_aws_def Let_def logger_local_files split: sum.splits prod.splits option.splits)

lemma refresh_local_files:
  "local_files (snd (refresh ev t date w)) = local_files (snd (get_ndl_data ev t date w))"
proof (cases "get_ndl_data ev t date w")
  case (Pair r w1)
  show ?thesis
  proof (cases r)
    case (Inl e)
    with Pair show ?thesis by (simp add: refresh_def)
  next
    case (Inr t1)
    have a: "local_files (snd (apply_transforms ev t1 w1)) = local_files w1"
      by (simp add: apply_transforms_def transform_items_local_files)
    show ?thesis
    proof (cases "apply_transforms ev t1 w1")
      case p2: (Pair r2 w2)
      with a have e2: "local_files w2 = local_files w1" by simp
      show ?thesis
      proof (cases r2)
        case (Inl e)
        with Pair Inr p2 e2 show ?thesis by (simp add: refresh_def)
      next
        case i2: (Inr t2)
        from put_to_aws_local_files[of ev t2 w2] e2
        have "local_files (snd (put_to_aws ev t2 w2)) = local_files w1" by simp
        with Pair Inr p2 i2 show ?thesis
          by (cases "put_to_aws ev t2 w2"; cases "fst (put_to_aws ev t2 w2)")
             (simp_all add: refresh_def)
      qed
    qed
  qed
qed

section \<open>The export file\<close>

text \<open>
  C7. For a table constructed with an empty \<open>update_field\<close>, the local export file does not
  exist when the fetch has returned, whatever the world was before and whether the fetch
  returned rows or raised (a failed download, a failed parse); the transform and the upload
  do not touch local files, so the same holds when the whole refresh has returned.
\<close>

theorem export_file_removed_on_every_path:
  assumes "post_init ev nm [] pc sch w = (Inr t, w')"
  shows "local_files (snd (get_ndl_data ev t date w1)) (export_file_name t) = None
       \<and> local_files (snd (refresh ev t date w1)) (export_file_name t) = None"
proof -
  from post_init_mode[OF assms] have "refresh_mode t = ''overwrite''" by simp
  then have m: "refresh_mode t \<notin> set [''append'', ''overwrite_partitions'']" by simp
  from get_ndl_data_export_file_gone[OF m] refresh_local_files show ?thesis by simp
qed


theorem export_file_removed_on_every_path_witness:
  "\<exists>t w'. post_init (sample_env\<lparr>read_csv := (\<lambda>f fs. Inl (External ''bad zip file''))\<rparr>)
              ''WIKI/PRICES'' [] 0 [] sample_world = (Inr t, w')
     \<and> export_file_name t = ''WIKI.PRICES.zip''
     \<and> fst (get_ndl_data (sample_env\<lparr>read_csv := (\<lambda>f fs. Inl (External ''bad zip file''))\<rparr>)
                 t ''2024-03-01'' w') = Inl (External ''bad zip file'')
     \<and> local_files (snd (get_ndl_data (sample_env\<lparr>read_csv := (\<lambda>f fs. Inl (External ''bad zip file''))\<rparr>)
                            t ''2024-03-01'' w')) (export_file_name t) = None
     \<and> local_files (snd (refresh (sample_env\<lparr>read_csv := (\<lambda>f fs. Inl (External ''bad zip file''))\<rparr>)
                            t ''2024-03-01'' w')) (export_file_name t) = None"
proof -
  let ?ev = "sample_env\<lparr>read_csv := (\<lambda>f fs. Inl (External ''bad zip file''))\<rparr>"
  let ?r = "post_init ?ev ''WIKI/PRICES'' [] 0 [] sample_world"
  let ?t = "\<lparr>name = ''WIKI/PRICES'', update_field = [], partition_cols = 0,
             schema = [], s3_key = ''nasdaq/WIKI/PRICES/PRICES.parquet'',
             refresh_mode = ''overwrite'', data = None\<rparr>"
  have "fst ?r = Inr ?t"
    by (simp add: post_init_def derive_s3_key_def and_then_def sample_env_def)
  then have h: "?r = (Inr ?t, snd ?r)"
    by (metis prod.collapse)
  have n: "export_file_name ?t = ''WIKI.PRICES.zip''"
    by (simp add: export_file_name_def replace_char_def)
  have f: "fst (get_ndl_data ?ev ?t ''2024-03-01'' (snd ?r)) = Inl (External ''bad zip file'')"
    by (simp add: get_ndl_data_def export_and_read_def sample_env_def Let_def
             split: prod.splits)
  from export_file_removed_on_every_path[OF h] h n f show ?thesis by blast
qed

lemma logger_log: "log_lines (logger lv msg w) = log_lines w @ [(lv, msg)]"
  by (simp add: logger_def)

lemma post_init_log:
  "\<exists>sfx. log_lines (snd (post_init ev nm uf pc sch w)) = log_lines w @ sfx"
  by (simp add: post_init_def Let_def logger_def split: sum.splits option.splits)

lemma export_and_read_log:
  "\<exists>sfx. log_lines (snd (export_and_read ev t w)) = log_lines w @ sfx"
proof (cases "export_table ev (name t) (export_file_name t) (local_files w)")
  case (Pair r fs)
  show ?thesis
  proof (cases r)
    case None
    with Pair show ?thesis
      by (cases "read_csv ev (export_file_name t) fs")
         (simp_all add: export_and_read_def logger_def)
  next
    case (Some e)
    with Pair show ?thesis by (simp add: export_and_read_def logger_def)
  qed
qed

lemma remove_if_exists_log: "log_lines (remove_if_exists f w) = log_lines w"
  by (simp add: remove_if_exists_def)

lemma get_ndl_data_log:
  "\<exists>sfx. log_lines (snd (get_ndl_data ev t date w)) = log_lines w @ sfx"
proof (cases "refresh_mode t \<in> set [''append'', ''overwrite_partitions'']")
  case True
  then show ?thesis
    by (cases "get_table ev (name t) True (update_field t, date)")
       (simp_all add: get_ndl_data_def Let_def logger_def)
next
  case False
  let ?w1 = "logger Info (''Downloading table extract: '' @ name t @ '' ...'') w"
  obtain r w2 where p: "export_and_read ev t ?w1 = (r, w2)"
    by (cases "export_and_read ev t ?w1") auto
  with export_and_read_log[of ev t ?w1] obtain s1 where
    "log_lines w2 = log_lines ?w1 @ s1" by auto
  then have "log_lines w2 = log_lines w @ (Info, ''Downloading table extract: '' @ name t @ '' ...'') # s1"
    by (simp add: logger_def)
  with False p show ?thesis
    by (cases r) (simp_all add: get_ndl_data_def Let_def remove_if_exists_log logger_log)
qed

lemma transform_column_log:
  "\<exists>sfx. log_lines (snd (transform_column ev item t w)) = log_lines w @ sfx"
  by (simp add: transform_column_def rewrite_partition_cols_def Let_def logger_def
           split: sum.splits prod.splits)

lemma transform_items_log:
  "\<exists>sfx. log_lines (snd (transform_items ev items t w)) = log_lines w @ sfx"
proof (induction items arbitrary: t w)
  case Nil
  then show ?case by simp
next
  case (Cons item items)
  show ?case
  proof (cases "transform_column ev item t w")
    case (Pair r w1)
    with transform_column_log[of ev item t w] obtain s1 where
      e: "log_lines w1 = log_lines w @ s1" by auto
    show ?thesis
    proof (cases r)
      case (Inl err)
      with Pair e show ?thesis by simp
    next
      case (Inr t1)
      from Cons.IH[of t1 w1] obtain s2 where
        "log_lines (snd (transform_items ev items t1 w1)) = log_lines w1 @ s2" by blast
      with Pair Inr e show ?thesis by simp
    qed
  qed
qed

lemma put_to_aws_log:
  "\<exists>sfx. log_lines (snd (put_to_aws ev t w)) = log_lines w @ sfx"
  by (simp add: put_to_aws_def Let_def logger_def split: sum.splits prod.splits option.splits)

lemma refresh_log:
  "\<exists>sfx. log_lines (snd (refresh ev t date w)) = log_lines w @ sfx"
proof (cases "get_ndl_data ev t date w")
  case (Pair r w1)
  with get_ndl_data_log[of ev t date w] obtain s1 where
    e1: "log_lines w1 = log_lines w @ s1" by auto
  show ?thesis
  proof (cases r)
    case (Inl e)
    with Pair e1 show ?thesis by (simp add: refresh_def)
  next
    case (Inr t1)
    show ?thesis
    proof (cases "apply_transforms ev t1 w1")
      case p2: (Pair r2 w2)
      with transform_items_log[of ev "schema t1" t1 w1] obtain s2 where
        e2: "log_lines w2 = log_lines w1 @ s2" by (auto simp: apply_transforms_def)
      show ?thesis
      proof (cases r2)
        case (Inl e)
        with Pair Inr p2 e1 e2 show ?thesis by (simp add: refresh_def)
      next
        case i2: (Inr t2)
        from put_to_aws_log[of ev t2 w2] obtain s3 where
          "log_lines (snd (put_to_aws ev t2 w2)) = log_lines w2 @ s3" by blast
        with Pair Inr p2 i2 e1 e2 show ?thesis
          by (cases "put_to_aws ev t2 w2"; cases "fst (put_to_aws ev t2 w2)")
             (simp_all add: refresh_def)
      qed
    qed
  qed
qed

lemma construct_and_refresh_log:
  "\<exists>sfx. log_lines (snd (construct_and_refresh ev dn d entry w)) = log_lines w @ sfx"
proof -
  let ?md = "and_then (md_item ''update_field'' (md_update_field (snd entry))) (\<lambda>uf.
           and_then (md_item ''partition_cols'' (md_partition_cols (snd entry))) (\<lambda>pc.
           and_then (md_item ''schema'' (md_schema (snd entry))) (\<lambda>sch. Inr (uf, pc, sch))))"
  show ?thesis
  proof (cases ?md)
    case (Inl e)
    then show ?thesis by (simp add: construct_and_refresh_def Let_def)
  next
    case (Inr args)
    obtain uf pc sch where a: "args = (uf, pc, sch)" by (cases args) auto
    let ?nm = "dn @ ''/'' @ fst entry"
    show ?thesis
    proof (cases "post_init ev ?nm uf pc sch w")
      case (Pair r w1)
      with post_init_log[of ev ?nm uf pc sch w] obtain s1 where
        e1: "log_lines w1 = log_lines w @ s1" by auto
      show ?thesis
      proof (cases r)
        case il: (Inl e)
        with Inr a Pair e1 show ?thesis by (simp add: construct_and_refresh_def Let_def)
      next
        case ir: (Inr t)
        from refresh_log[of ev t d w1] obtain s2 where
          "log_lines (snd (refresh ev t d w1)) = log_lines w1 @ s2" by blast
        with Inr a Pair ir e1 show ?thesis by (simp add: construct_and_refresh_def Let_def)
      qed
    qed
  qed
qed

lemma update_one_log:
  "\<exists>sfx. log_lines (update_one ev dn d entry w) = log_lines w @ sfx"
proof (cases "construct_and_refresh ev dn d entry w")
  case (Pair r w1)
  with construct_and_refresh_log[of ev dn d entry w] obtain s1 where
    "log_lines w1 = log_lines w @ s1" by auto
  with Pair show ?thesis by (cases r) (simp_all add: update_one_def logger_def)
qed

lemma update_tables_log:
  "\<exists>sfx. log_lines (update_tables ev dn entries d w) = log_lines w @ sfx"
proof (induction entries arbitrary: w)
  case Nil
  then show ?case by simp
next
  case (Cons entry entries)
  from update_one_log[of ev dn d entry w] obtain s1 where
    "log_lines (update_one ev dn d entry w) = log_lines w @ s1" by blast
  moreover from Cons.IH[of "update_one ev dn d entry w"] obtain s2 where
    "log_lines (update_tables ev dn entries d (update_one ev dn d entry w))
       = log_lines (update_one ev dn d entry w) @ s2" by blast
  ultimately show ?case by simp
qed

lemma update_tables_append:
  "update_tables ev dn (xs @ ys) d w = update_tables ev dn ys d (update_tables ev dn xs d w)"
  by (induction xs arbitrary: w) simp_all

section \<open>Failure isolation in the dataset loop\<close>

text \<open>
  C8. \<^verbatim>\<open>update_tables\<close> takes the tables in the order of the dict: the turn of a table
  starts from the world its predecessors left and the tables after it follow from the world
  it leaves, whatever happened before. When the construction or the refresh of a table
  raises, the exception is caught, one error line with the dataset and table name and the
  text of the exception is logged, that line is still in the log when the whole run is
  over, and the run goes on with the next table. When nothing is raised the turn leaves the
  world of the refresh. The method returns nothing besides the world.
\<close>

theorem update_tables_isolates_failures:
  "update_tables ev dn (pre @ entry # post) d w =
     update_tables ev dn post d (update_one ev dn d entry (update_tables ev dn pre d w))
   \<and> (\<forall>e w2. construct_and_refresh ev dn d entry (update_tables ev dn pre d w) = (Inl e, w2) \<longrightarrow>
         update_one ev dn d entry (update_tables ev dn pre d w) =
           logger Error (''Failed to refresh '' @ dn @ ''/'' @ fst entry @ '': '' @ error_str e) w2
         \<and> (Error, ''Failed to refresh '' @ dn @ ''/'' @ fst entry @ '': '' @ error_str e)
             \<in> set (log_lines (update_tables ev dn (pre @ entry # post) d w)))
   \<and> (\<forall>t w2. construct_and_refresh ev dn d entry (update_tables ev dn pre d w) = (Inr t, w2) \<longrightarrow>
         update_one ev dn d entry (update_tables ev dn pre d w) = w2)"
proof -
  let ?w1 = "update_tables ev dn pre d w"
  have dec: "update_tables ev dn (pre @ entry # post) d w =
     update_tables ev dn post d (update_one ev dn d entry ?w1)"
    by (simp add: update_tables_append)
  have fail: "update_one ev dn d entry ?w1 =
           logger Error (''Failed to refresh '' @ dn @ ''/'' @ fst entry @ '': '' @ error_str e) w2
         \<and> (Error, ''Failed to refresh '' @ dn @ ''/'' @ fst entry @ '': '' @ error_str e)
             \<in> set (log_lines (update_tables ev dn (pre @ entry # post) d w))"
    if c: "construct_and_refresh ev dn d entry ?w1 = (Inl e, w2)" for e w2
  proof -
    let ?msg = "''Failed to refresh '' @ dn @ ''/'' @ fst entry @ '': '' @ error_str e"
    from c have u: "update_one ev dn d entry ?w1 = logger Error ?msg w2"
      by (simp add: update_one_def)
    from update_tables_log[of ev dn post d "update_one ev dn d entry ?w1"] obtain sfx where
      "log_lines (update_tables ev dn post d (update_one ev dn d entry ?w1))
         = log_lines (update_one ev dn d entry ?w1) @ sfx" by blast
    with u dec have "(Error, ?msg) \<in> set (log_lines (update_tables ev dn (pre @ entry # post) d w))"
      by (simp add: logger_def)
    with u show ?thesis by simp
  qed
  have ok: "update_one ev dn d entry ?w1 = w2"
    if c: "construct_and_refresh ev dn d entry ?w1 = (Inr t, w2)" for t w2
    using c by (simp add: update_one_def)
  from dec fail ok show ?thesis by blast
qed


theorem update_tables_isolates_failures_witness:
  "\<exists>w2. construct_and_refresh
          (sample_env\<lparr>export_table :=
             (\<lambda>nm f fs. if nm = ''DS/B'' then (Some (External ''boom''), fs)
                         else (None, fs(f \<mapsto> ''zip'')))\<rparr>)
          ''DS'' ''2024-03-01''
          (''B'', \<lparr>md_update_field = Some [], md_partition_cols = Some 1, md_schema = Some []\<rparr>)
          (update_tables
             (sample_env\<lparr>export_table :=
                (\<lambda>nm f fs. if nm = ''DS/B'' then (Some (External ''boom''), fs)
                            else (None, fs(f \<mapsto> ''zip'')))\<rparr>)
             ''DS''
             [(''A'', \<lparr>md_update_field = Some [], md_partition_cols = Some 0, md_schema = Some []\<rparr>)]
             ''2024-03-01'' sample_world)
        = (Inl (External ''boom''), w2)
     \<and> (Error, ''Failed to refresh DS/B: boom'')
         \<in> set (log_lines
              (update_tables
                 (sample_env\<lparr>export_table :=
                    (\<lambda>nm f fs. if nm = ''DS/B'' then (Some (External ''boom''), fs)
                                else (None, fs(f \<mapsto> ''zip'')))\<rparr>)
                 ''DS''
                 ([(''A'', \<lparr>md_update_field = Some [], md_partition_cols = Some 0, md_schema = Some []\<rparr>)]
                  @ (''B'', \<lparr>md_update_field = Some [], md_partition_cols = Some 1, md_schema = Some []\<rparr>)
                  # [(''C'', \<lparr>md_update_field = Some [], md_partition_cols = Some 2, md_schema = Some []\<rparr>)])
                 ''2024-03-01'' sample_world))
     \<and> s3_objects
           (update_tables
              (sample_env\<lparr>export_table :=
                 (\<lambda>nm f fs. if nm = ''DS/B'' then (Some (External ''boom''), fs)
                             else (None, fs(f \<mapsto> ''zip'')))\<rparr>)
              ''DS''
              ([(''A'', \<lparr>md_update_field = Some [], md_partition_cols = Some 0, md_schema = Some []\<rparr>)]
               @ (''B'', \<lparr>md_update_field = Some [], md_partition_cols = Some 1, md_schema = Some []\<rparr>)
               # [(''C'', \<lparr>md_update_field = Some [], md_partition_cols = Some 2, md_schema = Some []\<rparr>)])
              ''2024-03-01'' sample_world)
         = [(''bucket'', ''nasdaq/DS/A/A.parquet''), (''bucket'', ''nasdaq/DS/C/C.parquet'')]"
proof -
  let ?ev = "sample_env\<lparr>export_table :=
             (\<lambda>nm f fs. if nm = ''DS/B'' then (Some (External ''boom''), fs)
                         else (None, fs(f \<mapsto> ''zip'')))\<rparr>"
  let ?A = "(''A'', \<lparr>md_update_field = Some [], md_partition_cols = Some 0, md_schema = Some []\<rparr>)"
  let ?B = "(''B'', \<lparr>md_update_field = Some [], md_partition_cols = Some 1, md_schema = Some []\<rparr>)"
  let ?C = "(''C'', \<lparr>md_update_field = Some [], md_partition_cols = Some 2, md_schema = Some []\<rparr>)"
  let ?w1 = "update_tables ?ev ''DS'' [?A] ''2024-03-01'' sample_world"
  let ?c = "construct_and_refresh ?ev ''DS'' ''2024-03-01'' ?B ?w1"
  note defs = sample_env_def sample_world_def update_one_def
        construct_and_refresh_def md_item_def and_then_def post_init_def derive_s3_key_def
        logger_def refresh_def get_ndl_data_def export_and_read_def export_file_name_def
        replace_char_def remove_if_exists_def apply_transforms_def put_to_aws_def put_kwargs_def
        get_data_def Let_def AWS_COMPRESSION_TYPE_def
  have f: "fst ?c = Inl (External ''boom'')"
    by (simp add: defs)
  have h: "?c = (Inl (External ''boom''), snd ?c)"
    by (rule prod_eqI) (simp_all only: fst_conv snd_conv f)
  have m: "''Failed to refresh '' @ ''DS'' @ ''/'' @ fst ?B @ '': '' @ error_str (External ''boom'')
             = ''Failed to refresh DS/B: boom''"
    by simp
  note inst = update_tables_isolates_failures[of ?ev "''DS''" "[?A]" ?B "[?C]" "''2024-03-01''" sample_world]
  note imp = inst[THEN conjunct2, THEN conjunct1, THEN spec, THEN spec, THEN mp, OF h]
  have "(Error, ''Failed to refresh '' @ ''DS'' @ ''/'' @ fst ?B @ '': '' @ error_str (External ''boom''))
          \<in> set (log_lines (update_tables ?ev ''DS'' ([?A] @ ?B # [?C]) ''2024-03-01'' sample_world))"
    by (rule imp[THEN conjunct2])
  then have l: "(Error, ''Failed to refresh DS/B: boom'')
          \<in> set (log_lines (update_tables ?ev ''DS'' ([?A] @ ?B # [?C]) ''2024-03-01'' sample_world))"
    unfolding m .
  have s: "s3_objects (update_tables ?ev ''DS'' ([?A] @ ?B # [?C]) ''2024-03-01'' sample_world)
         = [(''bucket'', ''nasdaq/DS/A/A.parquet''), (''bucket'', ''nasdaq/DS/C/C.parquet'')]"
    by (simp add: defs)
  show ?thesis
    by (rule exI[of _ "snd ?c"], rule conjI[OF h], rule conjI[OF l], rule s)
qed







section \<open>Which fetch a table makes\<close>





section \<open>Casts of a table that has partition columns\<close>


text \<open>
  C3 at a table with the partition column \<open>ticker\<close> and the schema item \<open>close: int64\<close>:
  the transform returns the table and the world as they were, the column \<open>close\<close> still
  holds the string \<open>17\<close>. The same table without partition columns has the column cast to
  the integer 17.
\<close>

theorem partitioned_table_leaves_column_uncast:
  "apply_transforms sample_env
     \<lparr>name = ''DS/T'', update_field = ''date'', partition_cols = 0,
      schema = [(''close'', ''int64'')], s3_key = ''nasdaq/DS/T'',
      refresh_mode = ''overwrite_partitions'',
      data = Some [(''ticker'', [StrV ''A'']), (''close'', [StrV ''17''])]\<rparr>
     (sample_world\<lparr>list_heap := (\<lambda>r. [])(0 := [''ticker''])\<rparr>)
   = (Inr \<lparr>name = ''DS/T'', update_field = ''date'', partition_cols = 0,
           schema = [(''close'', ''int64'')], s3_key = ''nasdaq/DS/T'',
           refresh_mode = ''overwrite_partitions'',
           data = Some [(''ticker'', [StrV ''A'']), (''close'', [StrV ''17''])]\<rparr>,
      sample_world\<lparr>list_heap := (\<lambda>r. [])(0 := [''ticker''])\<rparr>)
   \<and> fst (apply_transforms sample_env
     \<lparr>name = ''DS/T'', update_field = ''date'', partition_cols = 0,
      schema = [(''close'', ''int64'')], s3_key = ''nasdaq/DS/T'',
      refresh_mode = ''overwrite_partitions'',
      data = Some [(''ticker'', [StrV ''A'']), (''close'', [StrV ''17''])]\<rparr>
     sample_world)
   = Inr \<lparr>name = ''DS/T'', update_field = ''date'', partition_cols = 0,
           schema = [(''close'', ''int64'')], s3_key = ''nasdaq/DS/T'',
           refresh_mode = ''overwrite_partitions'',
           data = Some [(''ticker'', [StrV ''A'']), (''close'', [IntV 17])]\<rparr>"
  by (simp add: apply_transforms_def transform_column_def Let_def sample_world_def sample_env_def
        get_data_def cast_column_def and_then_def df_get_def sample_astype_def parse_nat_def
        digit_val_def logger_def)

text \<open>
  C5 at a table with the partition column \<open>ticker\<close> and the schema item
  \<open>date: datetime64[ns]\<close>: the transform leaves the timestamp of March 1 2024 in the column
  \<open>date\<close>. The same table without partition columns has the column formatted to the string
  \<open>2024-03-01\<close>.
\<close>

theorem partitioned_table_leaves_date_unformatted:
  "apply_transforms sample_env
     \<lparr>name = ''DS/T'', update_field = ''date'', partition_cols = 0,
      schema = [(''date'', ''datetime64[ns]'')], s3_key = ''nasdaq/DS/T'',
      refresh_mode = ''overwrite_partitions'',
      data = Some [(''ticker'', [StrV ''A'']), (''date'', [Ts 2024 3 1])]\<rparr>
     (sample_world\<lparr>list_heap := (\<lambda>r. [])(0 := [''ticker''])\<rparr>)
   = (Inr \<lparr>name = ''DS/T'', update_field = ''date'', partition_cols = 0,
           schema = [(''date'', ''datetime64[ns]'')], s3_key = ''nasdaq/DS/T'',
           refresh_mode = ''overwrite_partitions'',
           data = Some [(''ticker'', [StrV ''A'']), (''date'', [Ts 2024 3 1])]\<rparr>,
      sample_world\<lparr>list_heap := (\<lambda>r. [])(0 := [''ticker''])\<rparr>)
   \<and> fst (apply_transforms sample_env
     \<lparr>name = ''DS/T'', update_field = ''date'', partition_cols = 0,
      schema = [(''date'', ''datetime64[ns]'')], s3_key = ''nasdaq/DS/T'',
      refresh_mode = ''overwrite_partitions'',
      data = Some [(''ticker'', [StrV ''A'']), (''date'', [Ts 2024 3 1])]\<rparr>
     sample_world)
   = Inr \<lparr>name = ''DS/T'', update_field = ''date'', partition_cols = 0,
           schema = [(''date'', ''datetime64[ns]'')], s3_key = ''nasdaq/DS/T'',
           refresh_mode = ''overwrite_partitions'',
           data = Some [(''ticker'', [StrV ''A'']), (''date'', [StrV ''2024-03-01''])]\<rparr>"
  by (simp add: apply_transforms_def transform_column_def Let_def sample_world_def sample_env_def
        get_data_def format_date_def and_then_def df_get_def sample_astype_def
        zero_pad_def show_nat.simps digit_char_def)







section \<open>What a refresh does to the table's specification\<close>


















section \<open>Decomposition of a date partition column\<close>











section \<open>Transforming twice\<close>





end
